theory Spec2Isabelle
  imports Complex_Main
begin

section \<open>Data model (src/main.go, lines 26-62 and 206-210)\<close>

text \<open>
  Go strings are byte sequences and \<open>len\<close> counts bytes; \<open>string\<close> (a list of
  8-bit characters) is read the same way.  Go's \<open>int\<close> is modelled by \<open>int\<close>: the
  only arithmetic of the program compares and adds lengths, far below 2^63.
\<close>

record Config =
  OpenAIAPIKey :: string
  ModerationAPIURL :: string
  TargetURL :: string
  Port :: int
  WarningMsg :: string
  MinCharsModerate :: int
  FullContextModerate :: bool
  WhiteListModels :: "string list"

record Message =
  Role :: string
  Content :: string

record OpenAIChatReq =
  Model :: string
  Messages :: "Message list"
  Stream :: bool

text \<open>
  A value of Go's \<open>interface{}\<close> as \<open>json.Unmarshal\<close> produces it: nil, bool,
  float64, string, \<open>[]interface{}\<close> and \<open>map[string]interface{}\<close>.  The numbers are
  opaque to the program; they are kept as reals.
\<close>

datatype json =
    JNull
  | JBool bool
  | JNumber real
  | JString string
  | JArray "json list"
  | JObject "(string \<times> json) list"

text \<open>The top-level \<open>map[string]interface{}\<close> of \<open>replaceModelValue\<close>.\<close>

type_synonym document = "string \<rightharpoonup> json"

record Choice =
  Index :: int
  Delta :: "string \<rightharpoonup> string"
  Logprobs :: json
  FinishReason :: string

record OpenAIStyleResponse =
  ID :: string
  Object :: string
  Created :: int
  RespModel :: string
  SystemFingerprint :: string
  Choices :: "Choice list"

text \<open>
  The \<open>Model\<close> field of \<open>OpenAIStyleResponse\<close> is \<open>RespModel\<close> here: the name
  \<open>Model\<close> is the field of the request.
\<close>

text \<open>
  Go error values.  \<open>LibraryError\<close> is an error returned by a library call
  (encoding/json, net/http), with its message; \<open>StatusError\<close> is the
  \<open>fmt.Errorf("moderation API returned status code %d", ...)\<close> of \<open>moderateContent\<close>;
  the last two are the wrapped errors of \<open>replaceModelValue\<close>.
\<close>

datatype error =
    LibraryError string
  | StatusError nat
  | InvalidJSON error
  | CouldNotEncode error

section \<open>The outside world\<close>

record http_request =
  reqMethod :: string
  reqURL :: string
  reqHeader :: "string \<rightharpoonup> string"
  reqBody :: string

record http_response =
  StatusCode :: nat
  Body :: string

text \<open>
  The library calls and the remote moderation service are not code of the repository;
  the program is modelled over any behaviour of theirs.  Each field is one call of the
  source and returns what the call returns: \<open>Inl\<close> the error, \<open>Inr\<close> the result.
  Within one request a call answers the same arguments in the same way.

  \<^item> \<open>unmarshalChatReq\<close>: \<open>json.Unmarshal(body, &chatReq)\<close>;
  \<^item> \<open>unmarshalMap\<close>: \<open>json.Unmarshal(input, &data)\<close> with \<open>data\<close> a
    \<open>map[string]interface{}\<close>;
  \<^item> \<open>marshalMap\<close>: \<open>json.Marshal(data)\<close>;
  \<^item> \<open>marshalStrings\<close>: \<open>json.Marshal\<close> of a \<open>map[string]string\<close>;
  \<^item> \<open>newRequest\<close>: \<open>http.NewRequest(method, url, body)\<close>, the request with an empty header;
  \<^item> \<open>clientDo\<close>: \<open>httpClient.Do(req)\<close>, the exchange with the moderation endpoint;
  \<^item> \<open>decodeModeration\<close>: \<open>json.NewDecoder(resp.Body).Decode(&moderationResp)\<close>, giving
    the \<open>Flagged\<close> fields of \<open>moderationResp.Results\<close> in order;
  \<^item> \<open>uuidFirst\<close>, \<open>uuidSecond\<close>: the strings of the two \<open>uuid.New()\<close> calls of
    \<open>generateOpenAIStyleResponse\<close> (always 36 characters long);
  \<^item> \<open>unixNow\<close>: \<open>time.Now().Unix()\<close>.
\<close>

record world =
  unmarshalChatReq :: "string \<Rightarrow> error + OpenAIChatReq"
  unmarshalMap :: "string \<Rightarrow> error + document"
  marshalMap :: "document \<Rightarrow> error + string"
  marshalStrings :: "(string \<rightharpoonup> string) \<Rightarrow> error + string"
  newRequest :: "string \<Rightarrow> string \<Rightarrow> string \<Rightarrow> error + http_request"
  clientDo :: "http_request \<Rightarrow> error + http_response"
  decodeModeration :: "string \<Rightarrow> error + bool list"
  uuidFirst :: string
  uuidSecond :: string
  unixNow :: int

section \<open>What the handler does\<close>

text \<open>
  The body of a gin JSON response: \<open>gin.H{"error": msg}\<close> with a fixed message,
  \<open>gin.H{"error": err.Error()}\<close>, or the marshalled rejection chunk.
\<close>

datatype payload =
    ErrorText string
  | ErrorOf error
  | ChunkJSON OpenAIStyleResponse

text \<open>The data of one Server-Sent Event written by \<open>c.SSEvent("", data)\<close>.\<close>

datatype sse_data =
    MarshalledChunk OpenAIStyleResponse
  | PlainText string

text \<open>
  What the handler answers: \<open>c.JSON(status, body)\<close>; an event stream (the header
  \<open>Content-Type: text/event-stream\<close>, the events written by the one run of the step
  function, which returns \<open>false\<close> and so closes the stream); or the call
  \<open>proxyRequest(c, body)\<close>, which hands the body to the downstream target and
  relays what comes back.
\<close>

datatype response =
    JSONResponse nat payload
  | EventStream "sse_data list"
  | Forwarded string

text \<open>
  The observable run of one request: the answer, the texts passed to
  \<open>moderateContent\<close> in call order, and the lines \<open>logFlaggedContent\<close> hands to
  \<open>appendToFile\<close> for log.txt (a write that fails is reported and changes nothing
  else).
\<close>

record outcome =
  answer :: response
  moderated :: "string list"
  logged :: "string list"

section \<open>Content extraction\<close>

text \<open>\<open>strings.Join(elems, sep)\<close>.\<close>

fun joinStrings :: "string list \<Rightarrow> string \<Rightarrow> string" where
  "joinStrings [] sep = []"
| "joinStrings [s] sep = s"
| "joinStrings (s # t # rest) sep = s @ sep @ joinStrings (t # rest) sep"

text \<open>The loop of \<open>getUserContent\<close> (lines 93-97), with the slice it appends to.\<close>

fun collectContents :: "Message list \<Rightarrow> string list \<Rightarrow> string list" where
  "collectContents [] userContents = userContents"
| "collectContents (msg # rest) userContents =
     (if Role msg = ''user'' \<or> Role msg = ''system''
      then collectContents rest (userContents @ [Content msg])
      else collectContents rest userContents)"

definition getUserContent :: "Message list \<Rightarrow> string" where
  "getUserContent messages = joinStrings (collectContents messages []) '' ''"

text \<open>
  The backward loop of lines 261-266, \<open>for i := len(messages) - 1; i >= 0; i--\<close>.
  The second argument is \<open>i + 1\<close>: at \<open>0\<close> the loop has ended and \<open>userContent\<close> is
  as it was; at \<open>Suc i\<close> the loop looks at \<open>messages[i]\<close>, which is in range.
\<close>

fun scanLastUser :: "Message list \<Rightarrow> nat \<Rightarrow> string \<Rightarrow> string" where
  "scanLastUser messages 0 userContent = userContent"
| "scanLastUser messages (Suc i) userContent =
     (if Role (messages ! i) = ''user'' then Content (messages ! i)
      else scanLastUser messages i userContent)"

text \<open>
  Lines 259-272: the text that reaches the threshold check of line 273, from the
  \<open>userContent\<close> that line 230 computed.
\<close>

definition moderationText :: "Config \<Rightarrow> Message list \<Rightarrow> string \<Rightarrow> string" where
  "moderationText cfg messages userContent =
     (if \<not> FullContextModerate cfg then
        (if length messages > 0 then scanLastUser messages (length messages) userContent
         else userContent)
      else userContent)"

section \<open>Chunking (lines 297-310)\<close>

function splitLoop :: "string \<Rightarrow> nat \<Rightarrow> string list \<Rightarrow> string list" where
  "splitLoop text i result =
     (if i < length text then
        (let end = (if i + 48000 > length text then length text else i + 48000)
         in splitLoop text (i + 48000) (result @ [take (end - i) (drop i text)]))
      else result)"
  by pat_completeness auto
termination
  by (relation "measure (\<lambda>(text, i, result). length text - i)") auto

definition splitText :: "string \<Rightarrow> string list" where
  "splitText text = (if length text \<le> 48000 then [text] else splitLoop text 0 [])"

section \<open>Model rewrite\<close>

text \<open>
  Lines 232-238: the replacement model chosen from \<open>len(userContent)\<close>; the empty
  string means no replacement.
\<close>

definition chooseReplaceModel :: "nat \<Rightarrow> string" where
  "chooseReplaceModel n =
     (let replaceModel = (if n > 10 * 1024 \<and> n < 100 * 1024 then ''glm-4-air'' else '''')
      in if n > 100 * 1024 then ''glm-4-flash'' else replaceModel)"

text \<open>Lines 321-325: the update of the decoded document.\<close>

definition setModel :: "document \<Rightarrow> string \<Rightarrow> document" where
  "setModel data newModelValue =
     (case data ''model'' of
        Some (JString old) \<Rightarrow> data(''model'' \<mapsto> JString newModelValue)
      | _ \<Rightarrow> data)"

definition replaceModelValue :: "world \<Rightarrow> string \<Rightarrow> string \<Rightarrow> error + string" where
  "replaceModelValue w input newModelValue =
     (case unmarshalMap w input of
        Inl err \<Rightarrow> Inl (InvalidJSON err)
      | Inr data \<Rightarrow>
          (case marshalMap w (setModel data newModelValue) of
             Inl err \<Rightarrow> Inl (CouldNotEncode err)
           | Inr output \<Rightarrow> Inr output))"

text \<open>
  Lines 231-248: the body after the size-based rewrite, or the error of
  \<open>replaceModelValue\<close>.
\<close>

definition rewriteBody :: "world \<Rightarrow> string \<Rightarrow> string \<Rightarrow> error + string" where
  "rewriteBody w userContent body =
     (let replaceModel = chooseReplaceModel (length userContent)
      in if replaceModel \<noteq> '''' then replaceModelValue w body replaceModel
         else Inr body)"

section \<open>Moderation client (lines 101-143)\<close>

text \<open>
  \<open>setHeaders\<close> calls \<open>req.Header.Set\<close> for each entry, which overwrites the value
  under the canonical form of the key.  The one call of the program passes the keys
  \<open>Content-Type\<close> and \<open>Authorization\<close>, which are canonical already, to a request
  whose header is empty.
\<close>

definition setHeaders :: "http_request \<Rightarrow> (string \<rightharpoonup> string) \<Rightarrow> http_request" where
  "setHeaders req headers = req\<lparr>reqHeader := reqHeader req ++ headers\<rparr>"

definition moderateContent :: "world \<Rightarrow> Config \<Rightarrow> string \<Rightarrow> error + bool" where
  "moderateContent w cfg content =
     (let model = (if length content < 4096 then ''omni-moderation-latest''
                   else ''text-moderation-latest'')
      in case marshalStrings w [''model'' \<mapsto> model, ''input'' \<mapsto> content] of
           Inl err \<Rightarrow> Inl err
         | Inr jsonData \<Rightarrow>
             (case newRequest w ''POST'' (ModerationAPIURL cfg) jsonData of
                Inl err \<Rightarrow> Inl err
              | Inr req \<Rightarrow>
                  (case clientDo w (setHeaders req
                          [''Content-Type'' \<mapsto> ''application/json'',
                           ''Authorization'' \<mapsto> ''Bearer '' @ OpenAIAPIKey cfg]) of
                     Inl err \<Rightarrow> Inl err
                   | Inr resp \<Rightarrow>
                       if StatusCode resp \<noteq> 200 then Inl (StatusError (StatusCode resp))
                       else (case decodeModeration w (Body resp) of
                               Inl err \<Rightarrow> Inl err
                             | Inr results \<Rightarrow> Inr (length results > 0 \<and> results ! 0)))))"

section \<open>Rejection response (lines 170-204)\<close>

definition generateOpenAIStyleResponse :: "world \<Rightarrow> string \<Rightarrow> string \<Rightarrow> OpenAIStyleResponse" where
  "generateOpenAIStyleResponse w warningMessage model =
     (let model = (if model = '''' then ''gpt-4o-mini'' else model)
      in \<lparr>ID = ''chatcmpl-'' @ take 24 (uuidFirst w),
          Object = ''chat.completion.chunk'',
          Created = unixNow w,
          RespModel = model,
          SystemFingerprint = ''fp_'' @ take 12 (uuidSecond w),
          Choices = [\<lparr>Index = 0,
                      Delta = [''content'' \<mapsto> warningMessage],
                      Logprobs = JNull,
                      FinishReason = ''stop''\<rparr>]\<rparr>)"

definition handleFlaggedContent :: "world \<Rightarrow> Config \<Rightarrow> bool \<Rightarrow> string \<Rightarrow> response" where
  "handleFlaggedContent w cfg isStream model =
     (let response = generateOpenAIStyleResponse w (WarningMsg cfg) model
      in if isStream then EventStream [MarshalledChunk response, PlainText ''[DONE]'']
         else JSONResponse 200 (ChunkJSON response))"

section \<open>The handler (lines 212-294)\<close>

text \<open>The allow-list loop of lines 251-257.\<close>

fun whiteListed :: "string list \<Rightarrow> string \<Rightarrow> bool" where
  "whiteListed [] m = False"
| "whiteListed (model # rest) m = (if model = m then True else whiteListed rest m)"

text \<open>
  The loop of lines 278-290 over the chunks, with the calls made so far.  \<open>None\<close> as
  the answer means the loop ran to its end and the handler goes on to line 293.
\<close>

fun moderateChunks ::
  "world \<Rightarrow> Config \<Rightarrow> OpenAIChatReq \<Rightarrow> string list \<Rightarrow> string list
     \<Rightarrow> response option \<times> string list \<times> string list" where
  "moderateChunks w cfg chatReq [] calls = (None, calls, [])"
| "moderateChunks w cfg chatReq (userContent # rest) calls =
     (case moderateContent w cfg userContent of
        Inl err \<Rightarrow>
          (Some (JSONResponse 500 (ErrorText ''Moderation error'')), calls @ [userContent], [])
      | Inr flagged \<Rightarrow>
          if flagged
          then (Some (handleFlaggedContent w cfg (Stream chatReq) (Model chatReq)),
                calls @ [userContent], [userContent @ [CHR 0x0A]])
          else moderateChunks w cfg chatReq rest (calls @ [userContent]))"

text \<open>
  Lines 259-293: what happens to a request that the allow-list did not send on.
\<close>

definition moderateAndForward ::
  "world \<Rightarrow> Config \<Rightarrow> OpenAIChatReq \<Rightarrow> string \<Rightarrow> string \<Rightarrow> outcome" where
  "moderateAndForward w cfg chatReq userContent body =
     (let userContent = moderationText cfg (Messages chatReq) userContent
      in if int (length userContent) \<ge> MinCharsModerate cfg then
           (case moderateChunks w cfg chatReq (splitText userContent) [] of
              (Some resp, calls, lines) \<Rightarrow>
                \<lparr>answer = resp, moderated = calls, logged = lines\<rparr>
            | (None, calls, lines) \<Rightarrow>
                \<lparr>answer = Forwarded body, moderated = calls, logged = lines\<rparr>)
         else \<lparr>answer = Forwarded body, moderated = [], logged = []\<rparr>)"

text \<open>
  \<open>handleChatCompletions\<close>.  The first argument after the configuration is the result
  of \<open>io.ReadAll(c.Request.Body)\<close>.
\<close>

definition handleChatCompletions :: "world \<Rightarrow> Config \<Rightarrow> error + string \<Rightarrow> outcome" where
  "handleChatCompletions w cfg readAll =
     (case readAll of
        Inl err \<Rightarrow>
          \<lparr>answer = JSONResponse 400 (ErrorText ''Error reading request body''),
           moderated = [], logged = []\<rparr>
      | Inr body \<Rightarrow>
          (case unmarshalChatReq w body of
             Inl err \<Rightarrow> \<lparr>answer = JSONResponse 400 (ErrorOf err), moderated = [], logged = []\<rparr>
           | Inr chatReq \<Rightarrow>
               (let userContent = getUserContent (Messages chatReq)
                in case rewriteBody w userContent body of
                     Inl err \<Rightarrow>
                       \<lparr>answer = JSONResponse 500 (ErrorText ''Error replacing model value''),
                        moderated = [], logged = []\<rparr>
                   | Inr body \<Rightarrow>
                       if whiteListed (WhiteListModels cfg) (Model chatReq)
                       then \<lparr>answer = Forwarded body, moderated = [], logged = []\<rparr>
                       else moderateAndForward w cfg chatReq userContent body)))"

section \<open>Auxiliary definitions for the statements\<close>

text \<open>
  Lines 102-120 of \<open>moderateContent\<close> on their own: the request the client sends for a
  text, or the error that stopped it from being built.
\<close>

definition moderationRequest :: "world \<Rightarrow> Config \<Rightarrow> string \<Rightarrow> error + http_request" where
  "moderationRequest w cfg content =
     (case marshalStrings w
             [''model'' \<mapsto> (if length content < 4096 then ''omni-moderation-latest''
                               else ''text-moderation-latest''),
              ''input'' \<mapsto> content] of
        Inl err \<Rightarrow> Inl err
      | Inr jsonData \<Rightarrow>
          (case newRequest w ''POST'' (ModerationAPIURL cfg) jsonData of
             Inl err \<Rightarrow> Inl err
           | Inr req \<Rightarrow>
               Inr (setHeaders req
                      [''Content-Type'' \<mapsto> ''application/json'',
                       ''Authorization'' \<mapsto> ''Bearer '' @ OpenAIAPIKey cfg])))"

text \<open>
  A world for concrete runs.  Every library call succeeds; the request parses to
  \<open>chatReq\<close>; the generic document has the request's model and two more fields; the
  encoder writes the model of the document; the moderation endpoint answers 200 and
  flags exactly the texts that \<open>flags\<close> holds of.
\<close>

definition sampleWorld :: "OpenAIChatReq \<Rightarrow> (string \<Rightarrow> bool) \<Rightarrow> world" where
  "sampleWorld chatReq flags =
     \<lparr>unmarshalChatReq = (\<lambda>body. Inr chatReq),
      unmarshalMap = (\<lambda>input. Inr [''model'' \<mapsto> JString (Model chatReq),
                                      ''stream'' \<mapsto> JBool (Stream chatReq),
                                      ''temperature'' \<mapsto> JNumber 1]),
      marshalMap = (\<lambda>data. Inr (case data ''model'' of
                                    Some (JString m) \<Rightarrow> ''model='' @ m
                                  | _ \<Rightarrow> ''no model'')),
      marshalStrings = (\<lambda>m. Inr (case m ''input'' of Some s \<Rightarrow> s | None \<Rightarrow> [])),
      newRequest = (\<lambda>method url body.
         Inr \<lparr>reqMethod = method, reqURL = url, reqHeader = Map.empty, reqBody = body\<rparr>),
      clientDo = (\<lambda>req. Inr \<lparr>StatusCode = 200, Body = reqBody req\<rparr>),
      decodeModeration = (\<lambda>body. Inr [flags body]),
      uuidFirst = ''6ba7b810-9dad-11d1-80b4-00c04fd430c8'',
      uuidSecond = ''6ba7b811-9dad-11d1-80b4-00c04fd430c8'',
      unixNow = 1700000000\<rparr>"

definition sampleConfig :: Config where
  "sampleConfig =
     \<lparr>OpenAIAPIKey = ''sk-test'',
      ModerationAPIURL = ''https://api.openai.com/v1/moderations'',
      TargetURL = ''https://api.example.com/v1/chat/completions'',
      Port = 8080,
      WarningMsg = ''Your message was rejected.'',
      MinCharsModerate = 5,
      FullContextModerate = False,
      WhiteListModels = [''gpt-4o'', ''glm-4-air'']\<rparr>"

text \<open>
  Two more worlds: one in which \<open>http.NewRequest\<close> rejects the URL
  \<open>http://[::1\<close> (the closing bracket of the host is missing), and one in which the
  moderation endpoint cannot be reached.
\<close>

definition malformedURLWorld :: "OpenAIChatReq \<Rightarrow> world" where
  "malformedURLWorld chatReq =
     (sampleWorld chatReq (\<lambda>s. False))
       \<lparr>newRequest := (\<lambda>method url body.
          if url = ''http://[::1'' then Inl (LibraryError ''parse: missing ] in host'')
          else Inr \<lparr>reqMethod = method, reqURL = url, reqHeader = Map.empty,
                    reqBody = body\<rparr>)\<rparr>"

definition unreachableWorld :: "OpenAIChatReq \<Rightarrow> world" where
  "unreachableWorld chatReq =
     (sampleWorld chatReq (\<lambda>s. False))
       \<lparr>clientDo := (\<lambda>req. Inl (LibraryError ''dial tcp: connection refused''))\<rparr>"

text \<open>A request with one message, of role \<open>role\<close>, for the model \<open>model\<close>.\<close>

definition oneMessage :: "string \<Rightarrow> string \<Rightarrow> string \<Rightarrow> OpenAIChatReq" where
  "oneMessage model role content =
     \<lparr>Model = model, Messages = [\<lparr>Role = role, Content = content\<rparr>], Stream = False\<rparr>"

text \<open>
  A world in which the generic decoding of the body fails although the request itself
  parses: \<open>json.Unmarshal\<close> into the struct skips a field it does not know without
  converting it, while into \<open>map[string]interface{}\<close> it converts every number to
  float64 and returns an error for a literal out of range, such as \<open>1e999\<close>.
\<close>

definition overflowWorld :: "OpenAIChatReq \<Rightarrow> world" where
  "overflowWorld chatReq =
     (sampleWorld chatReq (\<lambda>s. False))
       \<lparr>unmarshalMap := (\<lambda>input. Inl (LibraryError
          ''json: cannot unmarshal number 1e999 into Go value of type float64''))\<rparr>"

text \<open>
  Two bodies with such a field: one user message of 10241 bytes for an allow-listed
  model, and a system prompt of 10241 bytes followed by a short user message.
\<close>

definition overflowBody :: string where
  \<open>overflowBody =
     ''{"model":"gpt-4o","messages":[{"role":"user","content":"'' @
     replicate 10241 (CHR ''x'') @ ''"}],"n":1e999}''\<close>

definition overflowRequest :: OpenAIChatReq where
  "overflowRequest =
     \<lparr>Model = ''gpt-4o'',
      Messages = [\<lparr>Role = ''user'', Content = replicate 10241 (CHR ''x'')\<rparr>],
      Stream = False\<rparr>"

definition longPromptBody :: string where
  \<open>longPromptBody =
     ''{"model":"gpt-4","messages":[{"role":"system","content":"'' @
     replicate 10241 (CHR ''s'') @
     ''"},{"role":"user","content":"hi"}],"n":1e999}''\<close>

definition longPromptRequest :: OpenAIChatReq where
  "longPromptRequest =
     \<lparr>Model = ''gpt-4'',
      Messages = [\<lparr>Role = ''system'', Content = replicate 10241 (CHR ''s'')\<rparr>,
                  \<lparr>Role = ''user'', Content = ''hi''\<rparr>],
      Stream = False\<rparr>"

text \<open>A request with a system prompt and a user message.\<close>

definition promptAndMessage :: "string \<Rightarrow> string \<Rightarrow> string \<Rightarrow> OpenAIChatReq" where
  "promptAndMessage model prompt content =
     \<lparr>Model = model,
      Messages = [\<lparr>Role = ''system'', Content = prompt\<rparr>,
                  \<lparr>Role = ''user'', Content = content\<rparr>],
      Stream = False\<rparr>"

text \<open>
  The number of characters of a UTF-8 text: its bytes without the continuation bytes
  \<open>0x80..0xBF\<close>.  The program never counts characters; this is the count that a
  "minimum character count" speaks of.
\<close>

definition characterCount :: "string \<Rightarrow> nat" where
  "characterCount s =
     length (filter (\<lambda>c. \<not> (128 \<le> (of_char c :: nat) \<and> (of_char c :: nat) < 192)) s)"





text \<open>A request with one message from a streaming client.\<close>

definition oneStreamingMessage :: "string \<Rightarrow> string \<Rightarrow> string \<Rightarrow> OpenAIChatReq" where
  "oneStreamingMessage model role content =
     \<lparr>Model = model, Messages = [\<lparr>Role = role, Content = content\<rparr>], Stream = True\<rparr>"

section \<open>Basic facts\<close>

declare splitLoop.simps [simp del]

lemma whiteListed_iff: "whiteListed models m \<longleftrightarrow> m \<in> set models"
  by (induction models) auto

lemma getUserContent_single:
  "getUserContent [\<lparr>Role = r, Content = c\<rparr>] = (if r = ''user'' \<or> r = ''system'' then c else [])"
  by (simp add: getUserContent_def)

lemma sample_moderateContent:
  "moderateContent (sampleWorld chatReq flags) cfg content = Inr (flags content)"
  by (simp add: moderateContent_def sampleWorld_def setHeaders_def)

lemma sample_unmarshalChatReq: "unmarshalChatReq (sampleWorld chatReq flags) body = Inr chatReq"
  by (simp add: sampleWorld_def)

lemma sample_replaceModelValue:
  "replaceModelValue (sampleWorld chatReq flags) body new = Inr (''model='' @ new)"
  by (simp add: replaceModelValue_def sampleWorld_def setModel_def)

subsection \<open>The chunk loop\<close>

lemma splitLoop_acc: "splitLoop text i result = result @ splitLoop text i []"
proof (induction "length text - i" arbitrary: i result rule: less_induct)
  case less
  show ?case
  proof (cases "i < length text")
    case True
    define c where
      "c = take ((if i + 48000 > length text then length text else i + 48000) - i) (drop i text)"
    have a: "splitLoop text i result = splitLoop text (i + 48000) (result @ [c])"
      using True by (subst splitLoop.simps) (simp add: c_def Let_def)
    have b: "splitLoop text i [] = splitLoop text (i + 48000) [c]"
      using True by (subst splitLoop.simps) (simp add: c_def Let_def)
    have ih: "splitLoop text (i + 48000) r = r @ splitLoop text (i + 48000) []" for r
      using True by (intro less) simp
    show ?thesis
      using a b ih [of "result @ [c]"] ih [of "[c]"] by simp
  next
    case False
    then show ?thesis by (subst splitLoop.simps, subst (2) splitLoop.simps) simp
  qed
qed

lemma splitLoop_step:
  "i < length text \<Longrightarrow>
   splitLoop text i [] = take 48000 (drop i text) # splitLoop text (i + 48000) []"
  by (subst splitLoop.simps, subst splitLoop_acc) (auto simp: Let_def)

lemma splitLoop_done: "\<not> i < length text \<Longrightarrow> splitLoop text i [] = []"
  by (subst splitLoop.simps) simp

lemma concat_splitLoop: "concat (splitLoop text i []) = drop i text"
proof (induction "length text - i" arbitrary: i rule: less_induct)
  case less
  show ?case
  proof (cases "i < length text")
    case True
    have "concat (splitLoop text (i + 48000) []) = drop (i + 48000) text"
      using True by (intro less) simp
    then show ?thesis
      using True by (simp add: splitLoop_step add.commute [of i] flip: drop_drop)
  next
    case False
    then show ?thesis by (simp add: splitLoop_done)
  qed
qed

lemma splitLoop_bound: "s \<in> set (splitLoop text i []) \<Longrightarrow> length s \<le> 48000"
proof (induction "length text - i" arbitrary: i rule: less_induct)
  case less
  show ?case
  proof (cases "i < length text")
    case True
    with less.prems
    have "s = take 48000 (drop i text) \<or> s \<in> set (splitLoop text (i + 48000) [])"
      by (simp add: splitLoop_step)
    then show ?thesis
    proof
      assume "s = take 48000 (drop i text)"
      then show ?thesis by simp
    next
      assume "s \<in> set (splitLoop text (i + 48000) [])"
      then show ?thesis using True by (intro less(1) [of "i + 48000"]) simp_all
    qed
  next
    case False
    with less.prems show ?thesis by (simp add: splitLoop_done)
  qed
qed

lemma splitLoop_full: "s \<in> set (butlast (splitLoop text i [])) \<Longrightarrow> length s = 48000"
proof (induction "length text - i" arbitrary: i rule: less_induct)
  case less
  show ?case
  proof (cases "i < length text")
    case True
    note step = splitLoop_step [OF True]
    show ?thesis
    proof (cases "i + 48000 < length text")
      case True
      note further = True
      with less.prems step
      have "s = take 48000 (drop i text) \<or> s \<in> set (butlast (splitLoop text (i + 48000) []))"
        by (auto split: if_splits)
      then show ?thesis
      proof
        assume "s = take 48000 (drop i text)"
        then show ?thesis using further by simp
      next
        assume "s \<in> set (butlast (splitLoop text (i + 48000) []))"
        then show ?thesis using further by (intro less(1) [of "i + 48000"]) simp_all
      qed
    next
      case False
      then have "splitLoop text (i + 48000) [] = []" by (simp add: splitLoop_done)
      with less.prems step show ?thesis by simp
    qed
  next
    case False
    with less.prems show ?thesis by (simp add: splitLoop_done)
  qed
qed

lemma splitText_not_Nil: "splitText s \<noteq> []"
proof (cases "length s \<le> 48000")
  case True
  then show ?thesis by (simp add: splitText_def)
next
  case False
  then have "0 < length s" by (cases s) simp_all
  from splitLoop_step [OF this] False show ?thesis by (simp add: splitText_def)
qed

lemma splitText_short: "length s \<le> 48000 \<Longrightarrow> splitText s = [s]"
  by (simp add: splitText_def)

lemma splitText_two: "splitText (replicate 50000 c) = [replicate 48000 c, replicate 2000 c]"
  by (simp add: splitText_def splitLoop_step splitLoop_done)

subsection \<open>The handler up to the moderation stage\<close>

lemma handle_reaches_moderation:
  assumes "unmarshalChatReq w body = Inr chatReq"
    and "rewriteBody w (getUserContent (Messages chatReq)) body = Inr body'"
    and "Model chatReq \<notin> set (WhiteListModels cfg)"
  shows "handleChatCompletions w cfg (Inr body) =
     moderateAndForward w cfg chatReq (getUserContent (Messages chatReq)) body'"
  using assms by (simp add: handleChatCompletions_def whiteListed_iff)

lemma sample_rewriteBody_mid:
  "rewriteBody (sampleWorld chatReq flags) (replicate 50000 c) body = Inr ''model=glm-4-air''"
  by (simp add: rewriteBody_def chooseReplaceModel_def sample_replaceModelValue)

lemma rewriteBody_small: "length userContent \<le> 10240 \<Longrightarrow> rewriteBody w userContent body = Inr body"
  by (simp add: rewriteBody_def chooseReplaceModel_def)

lemma moderationText_one_user:
  "moderationText cfg [\<lparr>Role = ''user'', Content = c\<rparr>] c = c"
  by (simp add: moderationText_def)

subsection \<open>The moderation loop\<close>

lemma moderateChunks_skip:
  "k \<le> length chunks \<Longrightarrow>
   (\<And>j. j < k \<Longrightarrow> moderateContent w cfg (chunks ! j) = Inr False) \<Longrightarrow>
   moderateChunks w cfg chatReq chunks calls =
     moderateChunks w cfg chatReq (drop k chunks) (calls @ take k chunks)"
proof (induction chunks arbitrary: k calls)
  case Nil
  then show ?case by simp
next
  case (Cons c cs)
  show ?case
  proof (cases k)
    case 0
    then show ?thesis by simp
  next
    case (Suc k')
    have first: "moderateContent w cfg c = Inr False"
      using Cons.prems(2) [of 0] Suc by simp
    have rest: "moderateChunks w cfg chatReq cs (calls @ [c]) =
        moderateChunks w cfg chatReq (drop k' cs) ((calls @ [c]) @ take k' cs)"
    proof (rule Cons.IH)
      show "k' \<le> length cs" using Cons.prems(1) Suc by simp
      show "moderateContent w cfg (cs ! j) = Inr False" if "j < k'" for j
        using Cons.prems(2) [of "Suc j"] that Suc by simp
    qed
    show ?thesis using first rest Suc by simp
  qed
qed

lemma moderateChunks_all_clear:
  assumes "\<And>j. j < length chunks \<Longrightarrow> moderateContent w cfg (chunks ! j) = Inr False"
  shows "moderateChunks w cfg chatReq chunks [] = (None, chunks, [])"
  using moderateChunks_skip [of "length chunks" chunks w cfg chatReq "[]"] assms by simp

lemma moderateChunks_first_flagged:
  assumes "k < length chunks"
    and "\<And>j. j < k \<Longrightarrow> moderateContent w cfg (chunks ! j) = Inr False"
    and "moderateContent w cfg (chunks ! k) = Inr True"
  shows "moderateChunks w cfg chatReq chunks [] =
     (Some (handleFlaggedContent w cfg (Stream chatReq) (Model chatReq)),
      take (Suc k) chunks, [chunks ! k @ [CHR 0x0A]])"
proof -
  have "moderateChunks w cfg chatReq chunks [] =
      moderateChunks w cfg chatReq (chunks ! k # drop (Suc k) chunks) (take k chunks)"
    using moderateChunks_skip [of k chunks w cfg chatReq "[]"] assms(1,2)
    by (simp add: Cons_nth_drop_Suc)
  then show ?thesis using assms(1,3) by (simp add: take_Suc_conv_app_nth)
qed

lemma moderateChunks_first_error:
  assumes "k < length chunks"
    and "\<And>j. j < k \<Longrightarrow> moderateContent w cfg (chunks ! j) = Inr False"
    and "moderateContent w cfg (chunks ! k) = Inl err"
  shows "moderateChunks w cfg chatReq chunks [] =
     (Some (JSONResponse 500 (ErrorText ''Moderation error'')), take (Suc k) chunks, [])"
proof -
  have "moderateChunks w cfg chatReq chunks [] =
      moderateChunks w cfg chatReq (chunks ! k # drop (Suc k) chunks) (take k chunks)"
    using moderateChunks_skip [of k chunks w cfg chatReq "[]"] assms(1,2)
    by (simp add: Cons_nth_drop_Suc)
  then show ?thesis using assms(1,3) by (simp add: take_Suc_conv_app_nth)
qed

lemma moderateChunks_calls_grow:
  "\<exists>more. fst (snd (moderateChunks w cfg chatReq chunks calls)) = calls @ more"
proof (induction chunks arbitrary: calls)
  case Nil
  then show ?case by simp
next
  case (Cons c cs)
  from Cons [of "calls @ [c]"] show ?case
    by (auto split: sum.splits)
qed

lemma moderateChunks_calls_first:
  "fst (snd (moderateChunks w cfg chatReq (c # cs) [])) \<noteq> []"
  using moderateChunks_calls_grow [of w cfg chatReq cs "[c]"]
  by (auto split: sum.splits)

lemma moderated_above_threshold:
  assumes "MinCharsModerate cfg \<le> int (length (moderationText cfg (Messages chatReq) userContent))"
  shows "moderated (moderateAndForward w cfg chatReq userContent body) \<noteq> []"
proof -
  obtain c cs where s: "splitText (moderationText cfg (Messages chatReq) userContent) = c # cs"
    using splitText_not_Nil by (meson list.exhaust)
  obtain r calls lines where m: "moderateChunks w cfg chatReq (c # cs) [] = (r, calls, lines)"
    by (meson prod_cases3)
  with moderateChunks_calls_first [of w cfg chatReq c cs] have "calls \<noteq> []" by simp
  with assms s m show ?thesis
    by (cases r) (simp_all add: moderateAndForward_def Let_def)
qed

subsection \<open>The allow-list plays no part in the moderation stage\<close>

lemma moderateContent_WhiteList:
  "moderateContent w (cfg\<lparr>WhiteListModels := models\<rparr>) content = moderateContent w cfg content"
  by (simp add: moderateContent_def cong: sum.case_cong if_cong)

lemma handleFlaggedContent_WhiteList:
  "handleFlaggedContent w (cfg\<lparr>WhiteListModels := models\<rparr>) s m = handleFlaggedContent w cfg s m"
  by (simp add: handleFlaggedContent_def)

lemma moderateChunks_WhiteList:
  "moderateChunks w (cfg\<lparr>WhiteListModels := models\<rparr>) chatReq chunks calls =
   moderateChunks w cfg chatReq chunks calls"
  by (induction chunks arbitrary: calls)
     (simp_all add: moderateContent_WhiteList handleFlaggedContent_WhiteList split: sum.splits)

lemma moderateAndForward_WhiteList:
  "moderateAndForward w (cfg\<lparr>WhiteListModels := models\<rparr>) chatReq userContent body =
   moderateAndForward w cfg chatReq userContent body"
  by (simp add: moderateAndForward_def moderationText_def moderateChunks_WhiteList Let_def
      cong: if_cong)

subsection \<open>The moderation client\<close>

lemma moderateContent_request:
  "moderateContent w cfg content =
     (case moderationRequest w cfg content of
        Inl err \<Rightarrow> Inl err
      | Inr req \<Rightarrow>
          (case clientDo w req of
             Inl err \<Rightarrow> Inl err
           | Inr resp \<Rightarrow>
               if StatusCode resp \<noteq> 200 then Inl (StatusError (StatusCode resp))
               else (case decodeModeration w (Body resp) of
                       Inl err \<Rightarrow> Inl err
                     | Inr results \<Rightarrow> Inr (length results > 0 \<and> results ! 0))))"
  by (simp add: moderateContent_def moderationRequest_def Let_def split: sum.splits)

lemma moderateContent_error_iff:
  "(\<exists>err. moderateContent w cfg content = Inl err) \<longleftrightarrow>
     (case moderationRequest w cfg content of
        Inl err \<Rightarrow> True
      | Inr req \<Rightarrow>
          (case clientDo w req of
             Inl err \<Rightarrow> True
           | Inr resp \<Rightarrow>
               StatusCode resp \<noteq> 200 \<or> (\<exists>err. decodeModeration w (Body resp) = Inl err)))"
  by (simp add: moderateContent_request split: sum.splits)

subsection \<open>The document update\<close>




subsection \<open>The last-message scan and the choice of the replacement model\<close>

lemma scanLastUser_no_user:
  "(\<And>j. j < n \<Longrightarrow> Role (messages ! j) \<noteq> ''user'') \<Longrightarrow>
   scanLastUser messages n userContent = userContent"
  by (induction n) simp_all

lemma scanLastUser_last_user:
  "i < n \<Longrightarrow> Role (messages ! i) = ''user'' \<Longrightarrow>
   (\<And>j. i < j \<Longrightarrow> j < n \<Longrightarrow> Role (messages ! j) \<noteq> ''user'') \<Longrightarrow>
   scanLastUser messages n userContent = Content (messages ! i)"
proof (induction n)
  case 0
  then show ?case by simp
next
  case (Suc n)
  show ?case
  proof (cases "i = n")
    case True
    with Suc.prems(2) show ?thesis by simp
  next
    case False
    with Suc.prems(1) have "i < n" by simp
    moreover from this have "Role (messages ! n) \<noteq> ''user''"
      using Suc.prems(3) [of n] by simp
    ultimately show ?thesis
      using Suc.IH Suc.prems(2,3) by simp
  qed
qed

lemma moderationText_no_user:
  assumes "\<not> FullContextModerate cfg"
    and "\<And>j. j < length messages \<Longrightarrow> Role (messages ! j) \<noteq> ''user''"
  shows "moderationText cfg messages userContent = userContent"
  using assms by (simp add: moderationText_def scanLastUser_no_user)

lemma chooseReplaceModel_cases:
  "chooseReplaceModel n =
     (if n \<le> 10240 then ''''
      else if n < 102400 then ''glm-4-air''
      else if n = 102400 then ''''
      else ''glm-4-flash'')"
  by (simp add: chooseReplaceModel_def)

lemma rewrite_failure_aborts:
  assumes "unmarshalChatReq w body = Inr chatReq"
    and "rewriteBody w (getUserContent (Messages chatReq)) body = Inl err"
  shows "handleChatCompletions w cfg (Inr body) =
     \<lparr>answer = JSONResponse 500 (ErrorText ''Error replacing model value''),
      moderated = [], logged = []\<rparr>"
  using assms by (simp add: handleChatCompletions_def)

subsection \<open>The worlds of the counterexamples\<close>

lemma overflow_unmarshalChatReq: "unmarshalChatReq (overflowWorld chatReq) body = Inr chatReq"
  by (simp add: overflowWorld_def sampleWorld_def)

lemma overflow_rewriteBody:
  "10240 < length userContent \<Longrightarrow> length userContent < 102400 \<Longrightarrow>
   rewriteBody (overflowWorld chatReq) userContent body =
     Inl (InvalidJSON (LibraryError
       ''json: cannot unmarshal number 1e999 into Go value of type float64''))"
  by (simp add: rewriteBody_def chooseReplaceModel_def replaceModelValue_def overflowWorld_def)

lemma getUserContent_prompt:
  "getUserContent (Messages (promptAndMessage model prompt content)) = prompt @ '' '' @ content"
  by (simp add: getUserContent_def promptAndMessage_def)

lemma moderationText_prompt:
  "\<not> FullContextModerate cfg \<Longrightarrow>
   moderationText cfg (Messages (promptAndMessage model prompt content)) userContent = content"
  by (simp add: moderationText_def promptAndMessage_def)




section \<open>Claims\<close>

subsection \<open>Content extraction in last-message mode\<close>

text \<open>
  C1.  In last-message mode the text that reaches the threshold check is said to be
  empty when no message has the role "user".  The handler does not reset
  \<open>userContent\<close>: with no "user" message the backward loop leaves the full-context
  text of line 230 in place, that is the contents of the "system" messages.  For the
  single message \<open>{role: "system", content: "be nice"}\<close>, with
  \<open>full_context_moderate\<close> off and a minimum of 5 characters, the text checked is
  "be nice" and it is sent to the moderation endpoint.
\<close>

theorem last_message_mode_without_user_message:
  "moderationText (cfg\<lparr>FullContextModerate := False\<rparr>)
      [\<lparr>Role = ''system'', Content = ''be nice''\<rparr>]
      (getUserContent [\<lparr>Role = ''system'', Content = ''be nice''\<rparr>]) = ''be nice'' \<and>
   moderated (handleChatCompletions
      (sampleWorld (oneMessage ''gpt-4'' ''system'' ''be nice'') (\<lambda>s. False))
      (cfg\<lparr>FullContextModerate := False, MinCharsModerate := 5, WhiteListModels := []\<rparr>)
      (Inr body)) = [''be nice'']"
  by (simp add: moderationText_def getUserContent_def handleChatCompletions_def oneMessage_def
      sample_unmarshalChatReq sample_moderateContent rewriteBody_def chooseReplaceModel_def
      moderateAndForward_def splitText_def)

subsection \<open>Size-based model rewrite\<close>

text \<open>
  C2.  The rewrite is said to choose the mid-tier model for every length in
  (10 KiB, 100 KiB], in particular at exactly 100 KiB.  The two tests of lines 233-238
  are \<open>> 10*1024 && < 100*1024\<close> and \<open>> 100*1024\<close>: at exactly 102400 bytes neither
  holds, no replacement is chosen and the body is left as it is, while one byte less
  gives the mid-tier and one byte more the fast-tier model.
\<close>

theorem no_rewrite_at_exactly_100_KiB:
  "chooseReplaceModel 102400 = '''' \<and>
   rewriteBody w (replicate 102400 c) body = Inr body \<and>
   chooseReplaceModel 102399 = ''glm-4-air'' \<and>
   chooseReplaceModel 102401 = ''glm-4-flash''"
  by (simp add: chooseReplaceModel_def rewriteBody_def)

subsection \<open>Chunking\<close>

text \<open>
  C3.  For every text, \<open>splitText\<close> returns segments whose concatenation in order is
  the text; every segment has at most 48000 bytes; every segment but the last has
  exactly 48000; and a text of at most 48000 bytes comes back as the one segment.
\<close>

theorem splitText_lossless_and_bounded:
  "concat (splitText text) = text \<and>
   (\<forall>s \<in> set (splitText text). length s \<le> 48000) \<and>
   (\<forall>s \<in> set (butlast (splitText text)). length s = 48000) \<and>
   (length text \<le> 48000 \<longrightarrow> splitText text = [text])"
  using splitLoop_bound [of _ "text" 0] splitLoop_full [of _ "text" 0]
  by (auto simp: splitText_def concat_splitLoop)

theorem splitText_lossless_and_bounded_witness:
  "length ''hello'' \<le> 48000 \<and> splitText ''hello'' = [''hello''] \<and>
   replicate 48000 (CHR ''a'') \<in> set (butlast (splitText (replicate 50000 (CHR ''a'')))) \<and>
   replicate 2000 (CHR ''a'') \<in> set (splitText (replicate 50000 (CHR ''a''))) \<and>
   concat (splitText (replicate 50000 (CHR ''a''))) = replicate 50000 (CHR ''a'')"
  using splitText_lossless_and_bounded [of "''hello''"]
    splitText_lossless_and_bounded [of "replicate 50000 (CHR ''a'')"]
  by (simp add: splitText_two)

subsection \<open>Allow-list bypass\<close>

text \<open>
  C4 (amended).  A request whose declared model is in the allow-list causes no
  moderation call and no log line, whatever the length of its content and whatever the
  moderation service would answer (the world \<open>w\<close> is arbitrary).  It is forwarded with
  the body that the size-based rewrite produced, unless that rewrite itself fails: the
  rewrite of lines 239-248 runs before the allow-list loop, and when
  \<open>replaceModelValue\<close> returns an error the answer is 500 "Error replacing model
  value" and nothing is forwarded.
\<close>

theorem allow_listed_never_moderated:
  assumes "unmarshalChatReq w body = Inr chatReq"
    and "Model chatReq \<in> set (WhiteListModels cfg)"
  shows "handleChatCompletions w cfg (Inr body) =
     \<lparr>answer = (case rewriteBody w (getUserContent (Messages chatReq)) body of
                  Inl err \<Rightarrow> JSONResponse 500 (ErrorText ''Error replacing model value'')
                | Inr body' \<Rightarrow> Forwarded body'),
      moderated = [], logged = []\<rparr>"
  using assms
  by (cases "rewriteBody w (getUserContent (Messages chatReq)) body")
     (simp_all add: handleChatCompletions_def whiteListed_iff)

theorem allow_listed_never_moderated_witness:
  "Model (oneMessage ''gpt-4o'' ''user'' (replicate 50000 (CHR ''x'')))
     \<in> set (WhiteListModels sampleConfig) \<and>
   handleChatCompletions
      (sampleWorld (oneMessage ''gpt-4o'' ''user'' (replicate 50000 (CHR ''x''))) (\<lambda>s. True))
      sampleConfig (Inr ''{}'') =
     \<lparr>answer = Forwarded ''model=glm-4-air'', moderated = [], logged = []\<rparr> \<and>
   handleChatCompletions
      (unreachableWorld (oneMessage ''gpt-4o'' ''user'' ''hello world''))
      sampleConfig (Inr ''{}'') =
     \<lparr>answer = Forwarded ''{}'', moderated = [], logged = []\<rparr>"
proof -
  let ?big = "oneMessage ''gpt-4o'' ''user'' (replicate 50000 (CHR ''x''))"
  let ?small = "oneMessage ''gpt-4o'' ''user'' ''hello world''"
  have listed: "Model (oneMessage ''gpt-4o'' r c) \<in> set (WhiteListModels sampleConfig)" for r c
    by (simp add: oneMessage_def sampleConfig_def)
  have parse: "unmarshalChatReq (unreachableWorld ?small) ''{}'' = Inr ?small"
    by (simp add: unreachableWorld_def sampleWorld_def)
  have a: "handleChatCompletions (sampleWorld ?big (\<lambda>s. True)) sampleConfig (Inr ''{}'') =
     \<lparr>answer = Forwarded ''model=glm-4-air'', moderated = [], logged = []\<rparr>"
    using allow_listed_never_moderated
        [of "sampleWorld ?big (\<lambda>s. True)" "''{}''" ?big sampleConfig,
         OF sample_unmarshalChatReq listed]
    by (simp add: oneMessage_def getUserContent_single sample_rewriteBody_mid)
  have b: "handleChatCompletions (unreachableWorld ?small) sampleConfig (Inr ''{}'') =
     \<lparr>answer = Forwarded ''{}'', moderated = [], logged = []\<rparr>"
    using allow_listed_never_moderated [OF parse listed]
    by (simp add: oneMessage_def getUserContent_single rewriteBody_small)
  from listed a b show ?thesis by (intro conjI)
qed

text \<open>
  The claim as written has every allow-listed request forwarded.  The body below names
  the allow-listed model \<open>gpt-4o\<close>, carries one user message of 10241 bytes and a
  field \<open>"n":1e999\<close>.  It parses into the request; its content is over 10 KiB, so the
  rewrite is attempted; the generic decoding fails on the number, and the handler
  answers 500 at line 244, before the allow-list is looked at.
\<close>

theorem allow_listed_request_not_forwarded:
  "unmarshalChatReq (overflowWorld overflowRequest) overflowBody = Inr overflowRequest \<and>
   Model overflowRequest \<in> set (WhiteListModels sampleConfig) \<and>
   handleChatCompletions (overflowWorld overflowRequest) sampleConfig (Inr overflowBody) =
     \<lparr>answer = JSONResponse 500 (ErrorText ''Error replacing model value''),
      moderated = [], logged = []\<rparr>"
  by (simp add: overflow_unmarshalChatReq handleChatCompletions_def overflowRequest_def
      sampleConfig_def getUserContent_single overflow_rewriteBody)

subsection \<open>Short-circuit moderation\<close>

text \<open>
  C5.  For a request that reaches the chunk loop (parsed, rewritten, not allow-listed,
  at least the minimum length), with \<open>chunks\<close> the result of the chunker: if chunk
  \<open>k\<close> (counted from 0) is the first flagged one, the earlier chunks having been
  found clean, then the moderation client was called for the chunks up to \<open>k\<close> and
  no other (\<open>Suc k\<close> calls, in order), the flagged chunk is logged and the answer is
  the rejection; if every chunk is clean the client was called once for each chunk, in
  order, and the body is forwarded.  When every chunk has a verdict the answer is the
  rejection exactly when some verdict is "flagged": the disjunction of the verdicts.
  The rejection is written out: the chunk with the warning message of the
  configuration and the model of the request ("gpt-4o-mini" when that is empty), as an
  event stream of two events for a streaming client and as a JSON body with status 200
  otherwise.
\<close>

theorem moderation_short_circuits_to_rejection:
  assumes "unmarshalChatReq w body = Inr chatReq"
    and "rewriteBody w (getUserContent (Messages chatReq)) body = Inr body'"
    and "Model chatReq \<notin> set (WhiteListModels cfg)"
    and "MinCharsModerate cfg \<le> int (length (moderationText cfg (Messages chatReq)
            (getUserContent (Messages chatReq))))"
    and "chunks = splitText (moderationText cfg (Messages chatReq)
            (getUserContent (Messages chatReq)))"
    and "chunk =
           \<lparr>ID = ''chatcmpl-'' @ take 24 (uuidFirst w),
            Object = ''chat.completion.chunk'',
            Created = unixNow w,
            RespModel = (if Model chatReq = '''' then ''gpt-4o-mini'' else Model chatReq),
            SystemFingerprint = ''fp_'' @ take 12 (uuidSecond w),
            Choices = [\<lparr>Index = 0, Delta = [''content'' \<mapsto> WarningMsg cfg],
                        Logprobs = JNull, FinishReason = ''stop''\<rparr>]\<rparr>"
    and "rejection =
           (if Stream chatReq then EventStream [MarshalledChunk chunk, PlainText ''[DONE]'']
            else JSONResponse 200 (ChunkJSON chunk))"
  shows "(\<forall>k < length chunks.
            (\<forall>j < k. moderateContent w cfg (chunks ! j) = Inr False) \<and>
            moderateContent w cfg (chunks ! k) = Inr True \<longrightarrow>
            handleChatCompletions w cfg (Inr body) =
              \<lparr>answer = rejection,
               moderated = take (Suc k) chunks,
               logged = [chunks ! k @ [CHR 0x0A]]\<rparr>) \<and>
         ((\<forall>j < length chunks. moderateContent w cfg (chunks ! j) = Inr False) \<longrightarrow>
            handleChatCompletions w cfg (Inr body) =
              \<lparr>answer = Forwarded body', moderated = chunks, logged = []\<rparr>) \<and>
         ((\<forall>j < length chunks. \<exists>flagged. moderateContent w cfg (chunks ! j) = Inr flagged) \<longrightarrow>
            answer (handleChatCompletions w cfg (Inr body)) =
              (if \<exists>j < length chunks. moderateContent w cfg (chunks ! j) = Inr True
               then rejection
               else Forwarded body'))"
proof -
  have run: "handleChatCompletions w cfg (Inr body) =
      (case moderateChunks w cfg chatReq chunks [] of
         (Some resp, calls, lines) \<Rightarrow> \<lparr>answer = resp, moderated = calls, logged = lines\<rparr>
       | (None, calls, lines) \<Rightarrow> \<lparr>answer = Forwarded body', moderated = calls, logged = lines\<rparr>)"
    using assms(1-5) by (simp add: handle_reaches_moderation moderateAndForward_def Let_def)
  have built: "handleFlaggedContent w cfg (Stream chatReq) (Model chatReq) = rejection"
    using assms(6,7)
    by (simp add: handleFlaggedContent_def generateOpenAIStyleResponse_def Let_def)
  have flagged: "handleChatCompletions w cfg (Inr body) =
        \<lparr>answer = rejection,
         moderated = take (Suc k) chunks,
         logged = [chunks ! k @ [CHR 0x0A]]\<rparr>"
    if "k < length chunks" and "\<forall>j < k. moderateContent w cfg (chunks ! j) = Inr False"
      and "moderateContent w cfg (chunks ! k) = Inr True" for k
  proof -
    have "moderateChunks w cfg chatReq chunks [] =
       (Some (handleFlaggedContent w cfg (Stream chatReq) (Model chatReq)),
        take (Suc k) chunks, [chunks ! k @ [CHR 0x0A]])"
      using that by (intro moderateChunks_first_flagged) simp_all
    then show ?thesis by (simp add: run built)
  qed
  have clear: "handleChatCompletions w cfg (Inr body) =
        \<lparr>answer = Forwarded body', moderated = chunks, logged = []\<rparr>"
    if "\<forall>j < length chunks. moderateContent w cfg (chunks ! j) = Inr False"
  proof -
    have "moderateChunks w cfg chatReq chunks [] = (None, chunks, [])"
      using that by (intro moderateChunks_all_clear) simp
    then show ?thesis by (simp add: run)
  qed
  have disjunction: "answer (handleChatCompletions w cfg (Inr body)) =
        (if \<exists>j < length chunks. moderateContent w cfg (chunks ! j) = Inr True
         then rejection
         else Forwarded body')"
    if verdicts: "\<forall>j < length chunks. \<exists>flagged. moderateContent w cfg (chunks ! j) = Inr flagged"
  proof (cases "\<exists>j < length chunks. moderateContent w cfg (chunks ! j) = Inr True")
    case True
    define k where "k = (LEAST j. j < length chunks \<and> moderateContent w cfg (chunks ! j) = Inr True)"
    have k: "k < length chunks \<and> moderateContent w cfg (chunks ! k) = Inr True"
      unfolding k_def using True by (rule LeastI_ex)
    have before: "moderateContent w cfg (chunks ! j) = Inr False" if "j < k" for j
    proof -
      have "j < length chunks" using that k by simp
      moreover have "\<not> (j < length chunks \<and> moderateContent w cfg (chunks ! j) = Inr True)"
        using that unfolding k_def by (rule not_less_Least)
      ultimately obtain flagged where "moderateContent w cfg (chunks ! j) = Inr flagged"
          and "\<not> flagged"
        using verdicts by auto
      then show ?thesis by simp
    qed
    from flagged [of k] k before True show ?thesis by simp
  next
    case False
    have "moderateContent w cfg (chunks ! j) = Inr False" if j: "j < length chunks" for j
    proof -
      obtain flagged where "moderateContent w cfg (chunks ! j) = Inr flagged"
        using verdicts j by auto
      with False j show ?thesis by (cases flagged) auto
    qed
    then have "\<forall>j < length chunks. moderateContent w cfg (chunks ! j) = Inr False"
      by simp
    from clear [OF this] False show ?thesis by auto
  qed
  show ?thesis
  proof (intro conjI allI impI)
    fix k
    assume "k < length chunks"
      and "(\<forall>j < k. moderateContent w cfg (chunks ! j) = Inr False) \<and>
           moderateContent w cfg (chunks ! k) = Inr True"
    then show "handleChatCompletions w cfg (Inr body) =
        \<lparr>answer = rejection,
         moderated = take (Suc k) chunks,
         logged = [chunks ! k @ [CHR 0x0A]]\<rparr>"
      by (intro flagged) simp_all
  next
    assume "\<forall>j < length chunks. moderateContent w cfg (chunks ! j) = Inr False"
    then show "handleChatCompletions w cfg (Inr body) =
        \<lparr>answer = Forwarded body', moderated = chunks, logged = []\<rparr>"
      by (rule clear)
  next
    assume "\<forall>j < length chunks. \<exists>flagged. moderateContent w cfg (chunks ! j) = Inr flagged"
    then show "answer (handleChatCompletions w cfg (Inr body)) =
        (if \<exists>j < length chunks. moderateContent w cfg (chunks ! j) = Inr True
         then rejection
         else Forwarded body')"
      by (rule disjunction)
  qed
qed

theorem moderation_short_circuits_to_rejection_witness:
  "handleChatCompletions
      (sampleWorld (oneMessage ''gpt-4'' ''user'' (replicate 50000 (CHR ''x'')))
         (\<lambda>s. length s = 2000))
      sampleConfig (Inr ''{}'') =
     \<lparr>answer = JSONResponse 200 (ChunkJSON
         \<lparr>ID = ''chatcmpl-6ba7b810-9dad-11d1-80b4-'',
          Object = ''chat.completion.chunk'',
          Created = 1700000000,
          RespModel = ''gpt-4'',
          SystemFingerprint = ''fp_6ba7b811-9da'',
          Choices = [\<lparr>Index = 0, Delta = [''content'' \<mapsto> ''Your message was rejected.''],
                      Logprobs = JNull, FinishReason = ''stop''\<rparr>]\<rparr>),
      moderated = [replicate 48000 (CHR ''x''), replicate 2000 (CHR ''x'')],
      logged = [replicate 2000 (CHR ''x'') @ [CHR 0x0A]]\<rparr> \<and>
   handleChatCompletions
      (sampleWorld (oneStreamingMessage '''' ''user'' (replicate 50000 (CHR ''x'')))
         (\<lambda>s. length s = 48000))
      sampleConfig (Inr ''{}'') =
     \<lparr>answer = EventStream
         [MarshalledChunk
            \<lparr>ID = ''chatcmpl-6ba7b810-9dad-11d1-80b4-'',
             Object = ''chat.completion.chunk'',
             Created = 1700000000,
             RespModel = ''gpt-4o-mini'',
             SystemFingerprint = ''fp_6ba7b811-9da'',
             Choices = [\<lparr>Index = 0, Delta = [''content'' \<mapsto> ''Your message was rejected.''],
                         Logprobs = JNull, FinishReason = ''stop''\<rparr>]\<rparr>,
          PlainText ''[DONE]''],
      moderated = [replicate 48000 (CHR ''x'')],
      logged = [replicate 48000 (CHR ''x'') @ [CHR 0x0A]]\<rparr> \<and>
   handleChatCompletions
      (sampleWorld (oneMessage ''gpt-4'' ''user'' (replicate 50000 (CHR ''x'')))
         (\<lambda>s. False))
      sampleConfig (Inr ''{}'') =
     \<lparr>answer = Forwarded ''model=glm-4-air'',
      moderated = [replicate 48000 (CHR ''x''), replicate 2000 (CHR ''x'')],
      logged = []\<rparr>"
proof -
  let ?req = "oneMessage ''gpt-4'' ''user'' (replicate 50000 (CHR ''x''))"
  let ?streaming = "oneStreamingMessage '''' ''user'' (replicate 50000 (CHR ''x''))"
  let ?chunks = "[replicate 48000 (CHR ''x''), replicate 2000 (CHR ''x'')]"
  let ?chunk = "\<lambda>model.
      \<lparr>ID = ''chatcmpl-6ba7b810-9dad-11d1-80b4-'',
       Object = ''chat.completion.chunk'',
       Created = 1700000000,
       RespModel = model,
       SystemFingerprint = ''fp_6ba7b811-9da'',
       Choices = [\<lparr>Index = 0, Delta = [''content'' \<mapsto> ''Your message was rejected.''],
                   Logprobs = JNull, FinishReason = ''stop''\<rparr>]\<rparr>"
  have content: "getUserContent (Messages ?req) = replicate 50000 (CHR ''x'')"
      "getUserContent (Messages ?streaming) = replicate 50000 (CHR ''x'')"
    by (simp_all add: oneMessage_def oneStreamingMessage_def getUserContent_single)
  have rewrite: "rewriteBody (sampleWorld ?req flags) (getUserContent (Messages ?req)) ''{}''
      = Inr ''model=glm-4-air''"
    "rewriteBody (sampleWorld ?streaming flags) (getUserContent (Messages ?streaming)) ''{}''
      = Inr ''model=glm-4-air''" for flags
    by (simp_all add: content sample_rewriteBody_mid)
  have listed: "Model ?req \<notin> set (WhiteListModels sampleConfig)"
    "Model ?streaming \<notin> set (WhiteListModels sampleConfig)"
    by (simp_all add: oneMessage_def oneStreamingMessage_def sampleConfig_def)
  have mtext: "moderationText sampleConfig (Messages ?req) (getUserContent (Messages ?req))
      = replicate 50000 (CHR ''x'')"
    "moderationText sampleConfig (Messages ?streaming) (getUserContent (Messages ?streaming))
      = replicate 50000 (CHR ''x'')"
    by (simp_all add: oneMessage_def oneStreamingMessage_def getUserContent_single moderationText_one_user)
  have enough: "MinCharsModerate sampleConfig \<le> int (length (moderationText sampleConfig
      (Messages ?req) (getUserContent (Messages ?req))))"
    "MinCharsModerate sampleConfig \<le> int (length (moderationText sampleConfig
      (Messages ?streaming) (getUserContent (Messages ?streaming))))"
    by (simp_all add: mtext) (simp_all add: sampleConfig_def)
  have chunks: "?chunks = splitText (moderationText sampleConfig (Messages ?req)
      (getUserContent (Messages ?req)))"
    "?chunks = splitText (moderationText sampleConfig (Messages ?streaming)
      (getUserContent (Messages ?streaming)))"
    by (simp_all add: mtext splitText_two)
  have chunk: "?chunk ''gpt-4'' =
      \<lparr>ID = ''chatcmpl-'' @ take 24 (uuidFirst (sampleWorld ?req flags)),
       Object = ''chat.completion.chunk'',
       Created = unixNow (sampleWorld ?req flags),
       RespModel = (if Model ?req = '''' then ''gpt-4o-mini'' else Model ?req),
       SystemFingerprint = ''fp_'' @ take 12 (uuidSecond (sampleWorld ?req flags)),
       Choices = [\<lparr>Index = 0, Delta = [''content'' \<mapsto> WarningMsg sampleConfig],
                   Logprobs = JNull, FinishReason = ''stop''\<rparr>]\<rparr>" for flags
    by (simp add: sampleWorld_def sampleConfig_def oneMessage_def oneStreamingMessage_def)
  have chunk': "?chunk ''gpt-4o-mini'' =
      \<lparr>ID = ''chatcmpl-'' @ take 24 (uuidFirst (sampleWorld ?streaming flags)),
       Object = ''chat.completion.chunk'',
       Created = unixNow (sampleWorld ?streaming flags),
       RespModel = (if Model ?streaming = '''' then ''gpt-4o-mini'' else Model ?streaming),
       SystemFingerprint = ''fp_'' @ take 12 (uuidSecond (sampleWorld ?streaming flags)),
       Choices = [\<lparr>Index = 0, Delta = [''content'' \<mapsto> WarningMsg sampleConfig],
                   Logprobs = JNull, FinishReason = ''stop''\<rparr>]\<rparr>" for flags
    by (simp add: sampleWorld_def sampleConfig_def oneMessage_def oneStreamingMessage_def)
  have plain: "JSONResponse 200 (ChunkJSON (?chunk ''gpt-4'')) =
      (if Stream ?req then EventStream [MarshalledChunk (?chunk ''gpt-4''), PlainText ''[DONE]'']
       else JSONResponse 200 (ChunkJSON (?chunk ''gpt-4'')))"
    by (simp add: oneMessage_def)
  have stream: "EventStream [MarshalledChunk (?chunk ''gpt-4o-mini''), PlainText ''[DONE]''] =
      (if Stream ?streaming
       then EventStream [MarshalledChunk (?chunk ''gpt-4o-mini''), PlainText ''[DONE]'']
       else JSONResponse 200 (ChunkJSON (?chunk ''gpt-4o-mini'')))"
    by (simp add: oneStreamingMessage_def)
  note run = moderation_short_circuits_to_rejection
      [OF sample_unmarshalChatReq rewrite(1) listed(1) enough(1) chunks(1) chunk plain]
  note run' = moderation_short_circuits_to_rejection
      [OF sample_unmarshalChatReq rewrite(2) listed(2) enough(2) chunks(2) chunk' stream]
  have second: "handleChatCompletions (sampleWorld ?req (\<lambda>s. length s = 2000)) sampleConfig
      (Inr ''{}'') =
     \<lparr>answer = JSONResponse 200 (ChunkJSON (?chunk ''gpt-4'')),
      moderated = ?chunks, logged = [replicate 2000 (CHR ''x'') @ [CHR 0x0A]]\<rparr>"
    using run [of "\<lambda>s. length s = 2000", THEN conjunct1, rule_format, of 1]
    by (simp add: sample_moderateContent)
  have first: "handleChatCompletions (sampleWorld ?streaming (\<lambda>s. length s = 48000))
      sampleConfig (Inr ''{}'') =
     \<lparr>answer = EventStream [MarshalledChunk (?chunk ''gpt-4o-mini''), PlainText ''[DONE]''],
      moderated = [replicate 48000 (CHR ''x'')],
      logged = [replicate 48000 (CHR ''x'') @ [CHR 0x0A]]\<rparr>"
    using run' [of "\<lambda>s. length s = 48000", THEN conjunct1, rule_format, of 0]
    by (simp add: sample_moderateContent)
  have none: "handleChatCompletions (sampleWorld ?req (\<lambda>s. False)) sampleConfig (Inr ''{}'') =
     \<lparr>answer = Forwarded ''model=glm-4-air'', moderated = ?chunks, logged = []\<rparr>"
    using run [of "\<lambda>s. False", THEN conjunct2, THEN conjunct1]
    by (simp add: sample_moderateContent)
  from second first none show ?thesis by simp
qed

subsection \<open>Rejection response\<close>

text \<open>
  C6.  The synthesized rejection has exactly one choice: index 0, a delta map with the
  warning message under "content", null logprobs and finish reason "stop".  Its model
  is the requested model, or "gpt-4o-mini" when that is empty.  For a streaming client
  the answer is an event stream of two events, the marshalled chunk and then
  \<open>[DONE]\<close>; otherwise it is the chunk as a JSON body with status 200.
\<close>

theorem rejection_response_shape:
  "Choices (generateOpenAIStyleResponse w warningMessage model) =
     [\<lparr>Index = 0, Delta = [''content'' \<mapsto> warningMessage], Logprobs = JNull,
       FinishReason = ''stop''\<rparr>] \<and>
   RespModel (generateOpenAIStyleResponse w warningMessage model) =
     (if model = '''' then ''gpt-4o-mini'' else model) \<and>
   handleFlaggedContent w cfg True model =
     EventStream [MarshalledChunk (generateOpenAIStyleResponse w (WarningMsg cfg) model),
                  PlainText ''[DONE]''] \<and>
   handleFlaggedContent w cfg False model =
     JSONResponse 200 (ChunkJSON (generateOpenAIStyleResponse w (WarningMsg cfg) model))"
  by (simp add: generateOpenAIStyleResponse_def handleFlaggedContent_def Let_def)

subsection \<open>The rewrite keeps every other field\<close>




subsection \<open>Moderation errors\<close>

text \<open>
  C8 (amended).  The moderation client returns an error exactly when the request
  cannot be built (encoding the payload or \<open>http.NewRequest\<close> fails), or the
  exchange fails, or the status is not 200, or the response body does not decode.
  And for a request that reaches the chunk loop: when the call for chunk \<open>k\<close>
  returns an error, the earlier chunks having been found clean, the handler answers
  500 "Moderation error"; the calls made are those for the chunks up to \<open>k\<close>, each
  once, nothing is logged, and the answer is neither the forwarded body nor the
  rejection.
\<close>

theorem moderation_error_aborts:
  "((\<exists>err. moderateContent w cfg content = Inl err) \<longleftrightarrow>
     (case moderationRequest w cfg content of
        Inl err \<Rightarrow> True
      | Inr req \<Rightarrow>
          (case clientDo w req of
             Inl err \<Rightarrow> True
           | Inr resp \<Rightarrow>
               StatusCode resp \<noteq> 200 \<or> (\<exists>err. decodeModeration w (Body resp) = Inl err)))) \<and>
   (unmarshalChatReq w body = Inr chatReq \<and>
    rewriteBody w (getUserContent (Messages chatReq)) body = Inr body' \<and>
    Model chatReq \<notin> set (WhiteListModels cfg) \<and>
    MinCharsModerate cfg \<le> int (length (moderationText cfg (Messages chatReq)
            (getUserContent (Messages chatReq)))) \<and>
    chunks = splitText (moderationText cfg (Messages chatReq)
            (getUserContent (Messages chatReq))) \<and>
    k < length chunks \<and>
    (\<forall>j < k. moderateContent w cfg (chunks ! j) = Inr False) \<and>
    moderateContent w cfg (chunks ! k) = Inl err \<longrightarrow>
    handleChatCompletions w cfg (Inr body) =
      \<lparr>answer = JSONResponse 500 (ErrorText ''Moderation error''),
       moderated = take (Suc k) chunks, logged = []\<rparr>)"
proof (intro conjI impI)
  show "(\<exists>err. moderateContent w cfg content = Inl err) \<longleftrightarrow>
     (case moderationRequest w cfg content of
        Inl err \<Rightarrow> True
      | Inr req \<Rightarrow>
          (case clientDo w req of
             Inl err \<Rightarrow> True
           | Inr resp \<Rightarrow>
               StatusCode resp \<noteq> 200 \<or> (\<exists>err. decodeModeration w (Body resp) = Inl err)))"
    by (rule moderateContent_error_iff)
next
  assume a: "unmarshalChatReq w body = Inr chatReq \<and>
    rewriteBody w (getUserContent (Messages chatReq)) body = Inr body' \<and>
    Model chatReq \<notin> set (WhiteListModels cfg) \<and>
    MinCharsModerate cfg \<le> int (length (moderationText cfg (Messages chatReq)
            (getUserContent (Messages chatReq)))) \<and>
    chunks = splitText (moderationText cfg (Messages chatReq)
            (getUserContent (Messages chatReq))) \<and>
    k < length chunks \<and>
    (\<forall>j < k. moderateContent w cfg (chunks ! j) = Inr False) \<and>
    moderateContent w cfg (chunks ! k) = Inl err"
  have "moderateChunks w cfg chatReq chunks [] =
     (Some (JSONResponse 500 (ErrorText ''Moderation error'')), take (Suc k) chunks, [])"
  proof (rule moderateChunks_first_error)
    show "k < length chunks" using a by blast
    show "moderateContent w cfg (chunks ! k) = Inl err" using a by blast
    show "moderateContent w cfg (chunks ! j) = Inr False" if "j < k" for j
      using a that by blast
  qed
  with a show "handleChatCompletions w cfg (Inr body) =
      \<lparr>answer = JSONResponse 500 (ErrorText ''Moderation error''),
       moderated = take (Suc k) chunks, logged = []\<rparr>"
    by (simp add: handle_reaches_moderation moderateAndForward_def Let_def)
qed

theorem moderation_error_aborts_witness:
  "moderateContent (unreachableWorld (oneMessage ''gpt-4'' ''user'' ''hello world''))
      sampleConfig ''hello world'' = Inl (LibraryError ''dial tcp: connection refused'') \<and>
   handleChatCompletions (unreachableWorld (oneMessage ''gpt-4'' ''user'' ''hello world''))
      sampleConfig (Inr ''{}'') =
     \<lparr>answer = JSONResponse 500 (ErrorText ''Moderation error''),
      moderated = [''hello world''], logged = []\<rparr>"
proof -
  let ?req = "oneMessage ''gpt-4'' ''user'' ''hello world''"
  let ?w = "unreachableWorld ?req"
  have call: "moderateContent ?w sampleConfig ''hello world''
      = Inl (LibraryError ''dial tcp: connection refused'')"
    by (simp add: moderateContent_def unreachableWorld_def sampleWorld_def)
  have parse: "unmarshalChatReq ?w ''{}'' = Inr ?req"
    by (simp add: unreachableWorld_def sampleWorld_def)
  have content: "getUserContent (Messages ?req) = ''hello world''"
    by (simp add: oneMessage_def getUserContent_single)
  have rewrite: "rewriteBody ?w (getUserContent (Messages ?req)) ''{}'' = Inr ''{}''"
    by (simp add: content rewriteBody_small)
  have listed: "Model ?req \<notin> set (WhiteListModels sampleConfig)"
    by (simp add: oneMessage_def sampleConfig_def)
  have mtext: "moderationText sampleConfig (Messages ?req) (getUserContent (Messages ?req))
      = ''hello world''"
    by (simp add: oneMessage_def getUserContent_single moderationText_one_user)
  have enough: "MinCharsModerate sampleConfig \<le> int (length (moderationText sampleConfig
      (Messages ?req) (getUserContent (Messages ?req))))"
    by (simp add: mtext) (simp add: sampleConfig_def)
  have "handleChatCompletions ?w sampleConfig (Inr ''{}'') =
     \<lparr>answer = JSONResponse 500 (ErrorText ''Moderation error''),
      moderated = take (Suc 0) [''hello world''], logged = []\<rparr>"
    using moderation_error_aborts
      [of ?w sampleConfig "''hello world''" "''{}''" ?req "''{}''" "[''hello world'']" 0
          "LibraryError ''dial tcp: connection refused''", THEN conjunct2]
      parse rewrite listed enough call
    by (simp add: mtext splitText_short)
  with call show ?thesis by simp
qed

text \<open>
  The claim as written lists three causes only.  With a moderation URL that
  \<open>http.NewRequest\<close> cannot parse, no request is built and the client returns the
  error of line 115: there is no exchange that could fail, no status and no body.
\<close>

theorem moderation_error_without_exchange:
  "moderationRequest (malformedURLWorld (oneMessage ''gpt-4'' ''user'' ''hello world''))
      (sampleConfig\<lparr>ModerationAPIURL := ''http://[::1''\<rparr>) ''hello world''
     = Inl (LibraryError ''parse: missing ] in host'') \<and>
   moderateContent (malformedURLWorld (oneMessage ''gpt-4'' ''user'' ''hello world''))
      (sampleConfig\<lparr>ModerationAPIURL := ''http://[::1''\<rparr>) ''hello world''
     = Inl (LibraryError ''parse: missing ] in host'')"
  by (simp add: moderateContent_def moderationRequest_def malformedURLWorld_def sampleWorld_def)

subsection \<open>Below-threshold bypass\<close>

text \<open>
  C9 (amended).  For a parsed request whose model is not allow-listed: if the text that
  reaches the threshold check (re-extracted in last-message mode) has fewer bytes than
  the configured minimum, there is no moderation call and nothing is logged; the body
  after the size-based rewrite is forwarded, unless that rewrite itself fails, in
  which case the answer is 500 "Error replacing model value" and nothing is
  forwarded.  The length compared is \<open>len(userContent)\<close>, a number of bytes.
\<close>

theorem below_threshold_never_moderated:
  assumes "unmarshalChatReq w body = Inr chatReq"
    and "Model chatReq \<notin> set (WhiteListModels cfg)"
    and "int (length (moderationText cfg (Messages chatReq)
            (getUserContent (Messages chatReq)))) < MinCharsModerate cfg"
  shows "handleChatCompletions w cfg (Inr body) =
     \<lparr>answer = (case rewriteBody w (getUserContent (Messages chatReq)) body of
                  Inl err \<Rightarrow> JSONResponse 500 (ErrorText ''Error replacing model value'')
                | Inr body' \<Rightarrow> Forwarded body'),
      moderated = [], logged = []\<rparr>"
  using assms
  by (cases "rewriteBody w (getUserContent (Messages chatReq)) body")
     (simp_all add: handleChatCompletions_def whiteListed_iff moderateAndForward_def Let_def)

theorem below_threshold_never_moderated_witness:
  "int (length ''hi'') < MinCharsModerate sampleConfig \<and>
   handleChatCompletions
      (sampleWorld (promptAndMessage ''gpt-4'' ''You are a helpful assistant.'' ''hi'')
         (\<lambda>s. True))
      sampleConfig (Inr ''{}'') =
     \<lparr>answer = Forwarded ''{}'', moderated = [], logged = []\<rparr> \<and>
   handleChatCompletions
      (sampleWorld (promptAndMessage ''gpt-4'' (replicate 50000 (CHR ''s'')) ''hi'')
         (\<lambda>s. True))
      sampleConfig (Inr ''{}'') =
     \<lparr>answer = Forwarded ''model=glm-4-air'', moderated = [], logged = []\<rparr>"
proof -
  have short: "int (length ''hi'') < MinCharsModerate sampleConfig"
    by (simp add: sampleConfig_def)
  have listed: "Model (promptAndMessage ''gpt-4'' p c) \<notin> set (WhiteListModels sampleConfig)"
    for p c
    by (simp add: promptAndMessage_def sampleConfig_def)
  have mode: "\<not> FullContextModerate sampleConfig"
    by (simp add: sampleConfig_def)
  have below: "int (length (moderationText sampleConfig
      (Messages (promptAndMessage ''gpt-4'' p ''hi''))
      (getUserContent (Messages (promptAndMessage ''gpt-4'' p ''hi''))))) <
      MinCharsModerate sampleConfig" for p
    using short by (simp add: moderationText_prompt [OF mode])
  have a: "handleChatCompletions
      (sampleWorld (promptAndMessage ''gpt-4'' ''You are a helpful assistant.'' ''hi'')
         (\<lambda>s. True))
      sampleConfig (Inr ''{}'') =
     \<lparr>answer = Forwarded ''{}'', moderated = [], logged = []\<rparr>"
    using below_threshold_never_moderated
        [of "sampleWorld (promptAndMessage ''gpt-4'' ''You are a helpful assistant.'' ''hi'')
               (\<lambda>s. True)"
            "''{}''" "promptAndMessage ''gpt-4'' ''You are a helpful assistant.'' ''hi''"
            sampleConfig,
         OF sample_unmarshalChatReq listed below]
    by (simp add: getUserContent_prompt rewriteBody_small)
  have b: "handleChatCompletions
      (sampleWorld (promptAndMessage ''gpt-4'' (replicate 50000 (CHR ''s'')) ''hi'')
         (\<lambda>s. True))
      sampleConfig (Inr ''{}'') =
     \<lparr>answer = Forwarded ''model=glm-4-air'', moderated = [], logged = []\<rparr>"
    using below_threshold_never_moderated
        [of "sampleWorld (promptAndMessage ''gpt-4'' (replicate 50000 (CHR ''s'')) ''hi'')
               (\<lambda>s. True)"
            "''{}''" "promptAndMessage ''gpt-4'' (replicate 50000 (CHR ''s'')) ''hi''"
            sampleConfig,
         OF sample_unmarshalChatReq listed below]
    by (simp add: getUserContent_prompt rewriteBody_def chooseReplaceModel_def
        sample_replaceModelValue)
  from short a b show ?thesis by (intro conjI)
qed

text \<open>
  The claim as written has every such request forwarded, and measures the text in
  characters.  First run: a system prompt of 10241 bytes, the user message "hi" and a
  field \<open>"n":1e999\<close>, in last-message mode with a minimum of 5.  The text checked would be
  "hi", but the full context is over 10 KiB, the rewrite is attempted and fails, and the
  answer is 500.  Second run: the user message is two Chinese characters, six bytes in
  UTF-8; with a minimum of 5 it is sent to moderation.
\<close>

theorem below_threshold_request_not_forwarded:
  "unmarshalChatReq (overflowWorld longPromptRequest) longPromptBody = Inr longPromptRequest \<and>
   Model longPromptRequest \<notin> set (WhiteListModels sampleConfig) \<and>
   moderationText sampleConfig (Messages longPromptRequest)
      (getUserContent (Messages longPromptRequest)) = ''hi'' \<and>
   int (length ''hi'') < MinCharsModerate sampleConfig \<and>
   handleChatCompletions (overflowWorld longPromptRequest) sampleConfig (Inr longPromptBody) =
     \<lparr>answer = JSONResponse 500 (ErrorText ''Error replacing model value''),
      moderated = [], logged = []\<rparr> \<and>
   characterCount [CHR 0xE4, CHR 0xBD, CHR 0xA0, CHR 0xE5, CHR 0xA5, CHR 0xBD] = 2 \<and>
   int 2 < MinCharsModerate sampleConfig \<and>
   handleChatCompletions
      (sampleWorld
         (oneMessage ''gpt-4'' ''user'' [CHR 0xE4, CHR 0xBD, CHR 0xA0, CHR 0xE5, CHR 0xA5, CHR 0xBD])
         (\<lambda>s. False))
      sampleConfig (Inr ''{}'') =
     \<lparr>answer = Forwarded ''{}'',
      moderated = [[CHR 0xE4, CHR 0xBD, CHR 0xA0, CHR 0xE5, CHR 0xA5, CHR 0xBD]],
      logged = []\<rparr>"
proof -
  let ?nihao = "[CHR 0xE4, CHR 0xBD, CHR 0xA0, CHR 0xE5, CHR 0xA5, CHR 0xBD]"
  have parse: "unmarshalChatReq (overflowWorld longPromptRequest) longPromptBody
      = Inr longPromptRequest"
    by (rule overflow_unmarshalChatReq)
  have listed: "Model longPromptRequest \<notin> set (WhiteListModels sampleConfig)"
    by (simp add: longPromptRequest_def sampleConfig_def)
  have content: "getUserContent (Messages longPromptRequest)
      = replicate 10241 (CHR ''s'') @ '' hi''"
    by (simp add: longPromptRequest_def getUserContent_def)
  have last: "moderationText sampleConfig (Messages longPromptRequest)
      (getUserContent (Messages longPromptRequest)) = ''hi''"
    by (simp add: moderationText_def longPromptRequest_def sampleConfig_def)
  have short: "int (length ''hi'') < MinCharsModerate sampleConfig"
    by (simp add: sampleConfig_def)
  have failed: "rewriteBody (overflowWorld longPromptRequest)
      (getUserContent (Messages longPromptRequest)) longPromptBody =
      Inl (InvalidJSON (LibraryError
        ''json: cannot unmarshal number 1e999 into Go value of type float64''))"
    by (simp add: content overflow_rewriteBody)
  have aborted: "handleChatCompletions (overflowWorld longPromptRequest) sampleConfig
      (Inr longPromptBody) =
     \<lparr>answer = JSONResponse 500 (ErrorText ''Error replacing model value''),
      moderated = [], logged = []\<rparr>"
    using parse failed by (rule rewrite_failure_aborts)
  have two: "characterCount ?nihao = 2"
    by (simp add: characterCount_def)
  have fewer: "int 2 < MinCharsModerate sampleConfig"
    by (simp add: sampleConfig_def)
  have moderated: "handleChatCompletions
      (sampleWorld (oneMessage ''gpt-4'' ''user'' ?nihao) (\<lambda>s. False))
      sampleConfig (Inr ''{}'') =
     \<lparr>answer = Forwarded ''{}'', moderated = [?nihao], logged = []\<rparr>"
    by (simp add: handleChatCompletions_def sample_unmarshalChatReq oneMessage_def
        getUserContent_single rewriteBody_small sampleConfig_def moderateAndForward_def
        moderationText_def splitText_short sample_moderateContent)
  from parse listed last short aborted two fewer moderated show ?thesis
    by (intro conjI)
qed

subsection \<open>The allow-list reads the declared model\<close>

text \<open>
  C10.  The allow-list loop tests the model of the parsed request.  If that model is
  allow-listed there is no moderation call, whatever the rewrite did to the body.  If
  it is not, the run is the run with an empty allow-list, whether or not the
  replacement model is allow-listed; in particular such a request, rewritten to an
  allow-listed model, is sent to moderation as soon as its text reaches the minimum
  length.
\<close>

theorem allow_list_reads_declared_model:
  assumes "unmarshalChatReq w body = Inr chatReq"
  shows "(Model chatReq \<in> set (WhiteListModels cfg) \<longrightarrow>
            moderated (handleChatCompletions w cfg (Inr body)) = []) \<and>
         (Model chatReq \<notin> set (WhiteListModels cfg) \<longrightarrow>
            handleChatCompletions w cfg (Inr body) =
              handleChatCompletions w (cfg\<lparr>WhiteListModels := []\<rparr>) (Inr body)) \<and>
         (Model chatReq \<notin> set (WhiteListModels cfg) \<and>
          chooseReplaceModel (length (getUserContent (Messages chatReq)))
             \<in> set (WhiteListModels cfg) \<and>
          rewriteBody w (getUserContent (Messages chatReq)) body = Inr body' \<and>
          MinCharsModerate cfg \<le> int (length (moderationText cfg (Messages chatReq)
             (getUserContent (Messages chatReq)))) \<longrightarrow>
            moderated (handleChatCompletions w cfg (Inr body)) \<noteq> [])"
proof (intro conjI impI)
  assume "Model chatReq \<in> set (WhiteListModels cfg)"
  with assms show "moderated (handleChatCompletions w cfg (Inr body)) = []"
    by (cases "rewriteBody w (getUserContent (Messages chatReq)) body")
       (simp_all add: handleChatCompletions_def whiteListed_iff)
next
  assume "Model chatReq \<notin> set (WhiteListModels cfg)"
  with assms show "handleChatCompletions w cfg (Inr body) =
      handleChatCompletions w (cfg\<lparr>WhiteListModels := []\<rparr>) (Inr body)"
    by (cases "rewriteBody w (getUserContent (Messages chatReq)) body")
       (simp_all add: handleChatCompletions_def whiteListed_iff moderateAndForward_WhiteList)
next
  assume "Model chatReq \<notin> set (WhiteListModels cfg) \<and>
          chooseReplaceModel (length (getUserContent (Messages chatReq)))
             \<in> set (WhiteListModels cfg) \<and>
          rewriteBody w (getUserContent (Messages chatReq)) body = Inr body' \<and>
          MinCharsModerate cfg \<le> int (length (moderationText cfg (Messages chatReq)
             (getUserContent (Messages chatReq))))"
  with assms show "moderated (handleChatCompletions w cfg (Inr body)) \<noteq> []"
    by (simp add: handle_reaches_moderation moderated_above_threshold)
qed

theorem allow_list_reads_declared_model_witness:
  "chooseReplaceModel (length (replicate 50000 (CHR ''x''))) \<in> set (WhiteListModels sampleConfig) \<and>
   moderated (handleChatCompletions
      (sampleWorld (oneMessage ''gpt-4'' ''user'' (replicate 50000 (CHR ''x''))) (\<lambda>s. False))
      sampleConfig (Inr ''{}'')) \<noteq> [] \<and>
   handleChatCompletions
      (sampleWorld (oneMessage ''gpt-4'' ''user'' (replicate 50000 (CHR ''x''))) (\<lambda>s. False))
      sampleConfig (Inr ''{}'') =
   handleChatCompletions
      (sampleWorld (oneMessage ''gpt-4'' ''user'' (replicate 50000 (CHR ''x''))) (\<lambda>s. False))
      (sampleConfig\<lparr>WhiteListModels := []\<rparr>) (Inr ''{}'') \<and>
   moderated (handleChatCompletions
      (sampleWorld (oneMessage ''glm-4-air'' ''user'' (replicate 50000 (CHR ''x''))) (\<lambda>s. False))
      sampleConfig (Inr ''{}'')) = []"
proof -
  let ?big = "replicate 50000 (CHR ''x'')"
  let ?req = "oneMessage ''gpt-4'' ''user'' ?big"
  let ?listed = "oneMessage ''glm-4-air'' ''user'' ?big"
  let ?w = "sampleWorld ?req (\<lambda>s. False)"
  have chosen: "chooseReplaceModel (length ?big) \<in> set (WhiteListModels sampleConfig)"
    by (simp add: chooseReplaceModel_def sampleConfig_def)
  have content: "getUserContent (Messages ?req) = ?big"
    by (simp add: oneMessage_def getUserContent_single)
  have rewrite: "rewriteBody ?w (getUserContent (Messages ?req)) ''{}'' = Inr ''model=glm-4-air''"
    by (simp add: content sample_rewriteBody_mid)
  have outside: "Model ?req \<notin> set (WhiteListModels sampleConfig)"
    by (simp add: oneMessage_def sampleConfig_def)
  have inside: "Model ?listed \<in> set (WhiteListModels sampleConfig)"
    by (simp add: oneMessage_def sampleConfig_def)
  have mtext: "moderationText sampleConfig (Messages ?req) (getUserContent (Messages ?req)) = ?big"
    by (simp add: oneMessage_def getUserContent_single moderationText_one_user)
  have enough: "MinCharsModerate sampleConfig \<le> int (length (moderationText sampleConfig
      (Messages ?req) (getUserContent (Messages ?req))))"
    by (simp add: mtext) (simp add: sampleConfig_def)
  note declared = allow_list_reads_declared_model
      [of ?w "''{}''" ?req sampleConfig "''model=glm-4-air''", OF sample_unmarshalChatReq]
  note listed = allow_list_reads_declared_model
      [of "sampleWorld ?listed (\<lambda>s. False)" "''{}''" ?listed sampleConfig "''{}''",
       OF sample_unmarshalChatReq]
  have a: "moderated (handleChatCompletions ?w sampleConfig (Inr ''{}'')) \<noteq> []"
    using declared [THEN conjunct2, THEN conjunct2] outside chosen rewrite enough content
    by simp
  have b: "handleChatCompletions ?w sampleConfig (Inr ''{}'') =
      handleChatCompletions ?w (sampleConfig\<lparr>WhiteListModels := []\<rparr>) (Inr ''{}'')"
    using declared [THEN conjunct2, THEN conjunct1] outside by simp
  have c: "moderated (handleChatCompletions (sampleWorld ?listed (\<lambda>s. False)) sampleConfig
      (Inr ''{}'')) = []"
    using listed [THEN conjunct1] inside by simp
  from chosen a b c show ?thesis by (intro conjI)
qed

end
